theory Spec2Isabelle
  imports Complex_Main
begin

section \<open>JavaScript numbers\<close>

text \<open>
  A JavaScript \<^verbatim>\<open>number\<close> is an IEEE double: a finite value, one of the two
  infinities, or NaN. The finite doubles are a subset of the reals and the program only
  compares numbers, so a finite number is modelled by the real it denotes. Every
  comparison with NaN is false.
\<close>

datatype number = Num real | Infinity | NegInfinity | NaN

text \<open>\<^verbatim>\<open>a >= b\<close>\<close>

fun js_ge :: "number \<Rightarrow> number \<Rightarrow> bool" where
  "js_ge NaN b = False"
| "js_ge a NaN = False"
| "js_ge Infinity b = True"
| "js_ge a NegInfinity = True"
| "js_ge NegInfinity b = False"
| "js_ge (Num x) Infinity = False"
| "js_ge (Num x) (Num y) = (y \<le> x)"

text \<open>\<^verbatim>\<open>a < b\<close>\<close>

fun js_lt :: "number \<Rightarrow> number \<Rightarrow> bool" where
  "js_lt NaN b = False"
| "js_lt a NaN = False"
| "js_lt a NegInfinity = False"
| "js_lt NegInfinity b = True"
| "js_lt Infinity b = False"
| "js_lt (Num x) Infinity = True"
| "js_lt (Num x) (Num y) = (x < y)"

section \<open>The router (services/evaluation.ts)\<close>

record thresholds =
  BUILD_NOW :: number
  BUILD_LATER :: number
  RESEARCH :: number
  ARCHIVE :: number

definition ROUTING_THRESHOLDS :: thresholds where
  "ROUTING_THRESHOLDS =
     \<lparr>BUILD_NOW = Num 80, BUILD_LATER = Num 60, RESEARCH = Num 40, ARCHIVE = Num 0\<rparr>"

datatype route =
  GENERATE_BLUEPRINT | DEFER_WITH_BLUEPRINT | NEEDS_VALIDATION | ARCHIVE_WITH_LEARNING

text \<open>
  \<^verbatim>\<open>routeIdea(evaluationScore: number, recommendation: string)\<close>: three tests in
  sequence, each returning when it holds, and a final return.
\<close>

definition routeIdea :: "number \<Rightarrow> string \<Rightarrow> route" where
  "routeIdea evaluationScore recommendation =
     (if js_ge evaluationScore (BUILD_NOW ROUTING_THRESHOLDS) \<and> recommendation = ''build-now''
      then GENERATE_BLUEPRINT
      else if js_ge evaluationScore (BUILD_LATER ROUTING_THRESHOLDS)
      then DEFER_WITH_BLUEPRINT
      else if js_ge evaluationScore (RESEARCH ROUTING_THRESHOLDS)
      then NEEDS_VALIDATION
      else ARCHIVE_WITH_LEARNING)"

section \<open>Errors\<close>

text \<open>
  Everything the program throws is caught by a \<^verbatim>\<open>catch (error)\<close> that reads at
  most the message. \<open>Error\<close> is what the two stage executors throw, \<open>SqliteError\<close> a
  constraint violation reported by the database, \<open>SyntaxError\<close> what
  \<^verbatim>\<open>JSON.parse\<close> throws.
\<close>

datatype error = Error string | SqliteError string | SyntaxError string

fun error_message :: "error \<Rightarrow> string" where
  "error_message (Error m) = m"
| "error_message (SqliteError m) = m"
| "error_message (SyntaxError m) = m"

section \<open>JSON text of an array of strings\<close>

text \<open>
  \<^verbatim>\<open>JSON.stringify\<close> and \<^verbatim>\<open>JSON.parse\<close> are built into the runtime. The
  program applies them to \<^verbatim>\<open>caseStudyMatches\<close>, an array of strings, and the model
  covers that use. \<open>JSON_stringify\<close> writes the array as ECMAScript does: the elements
  quoted and separated by commas, no white space, the quotation mark, the backslash and
  the control characters escaped. \<open>JSON_parse\<close> reads the JSON texts that denote an
  array of strings, with white space between the tokens and every escape of the grammar.
  Strings are sequences of bytes, the UTF-8 form of the JavaScript string: an escape
  \<^verbatim>\<open>\uXXXX\<close> is read as the UTF-8 bytes of its code point, and two escapes that form
  a surrogate pair as the bytes of the one code point they denote. A lone surrogate has
  no UTF-8 form, so the model has no string for the result and refuses the text. Any
  other text is refused with \<open>SyntaxError\<close>; texts that denote another JSON value do
  not come from \<open>JSON_stringify\<close>.
\<close>

definition hex_digit :: "nat \<Rightarrow> char" where
  "hex_digit n = ''0123456789abcdef'' ! n"

definition quote_char :: "char \<Rightarrow> string" where
  "quote_char c =
     (if c = CHR 0x08 then [CHR 0x5C, CHR ''b'']
      else if c = CHR 0x09 then [CHR 0x5C, CHR ''t'']
      else if c = CHR 0x0A then [CHR 0x5C, CHR ''n'']
      else if c = CHR 0x0C then [CHR 0x5C, CHR ''f'']
      else if c = CHR 0x0D then [CHR 0x5C, CHR ''r'']
      else if c = CHR 0x22 then [CHR 0x5C, CHR 0x22]
      else if c = CHR 0x5C then [CHR 0x5C, CHR 0x5C]
      else if (of_char c :: nat) < 0x20
      then [CHR 0x5C, CHR ''u'', CHR ''0'', CHR ''0'',
            hex_digit (of_char c div 16), hex_digit (of_char c mod 16)]
      else [c])"

definition QuoteJSONString :: "string \<Rightarrow> string" where
  "QuoteJSONString s = CHR 0x22 # concat (map quote_char s) @ [CHR 0x22]"

fun join_comma :: "string list \<Rightarrow> string" where
  "join_comma [] = []"
| "join_comma [x] = x"
| "join_comma (x # y # r) = x @ CHR '','' # join_comma (y # r)"

definition JSON_stringify :: "string list \<Rightarrow> string" where
  "JSON_stringify xs = CHR ''['' # join_comma (map QuoteJSONString xs) @ [CHR '']'']"

definition is_ws :: "char \<Rightarrow> bool" where
  "is_ws c \<longleftrightarrow> c = CHR 0x20 \<or> c = CHR 0x09 \<or> c = CHR 0x0A \<or> c = CHR 0x0D"

definition skip_ws :: "string \<Rightarrow> string" where
  "skip_ws s = dropWhile is_ws s"

definition hex_val :: "char \<Rightarrow> nat option" where
  "hex_val c =
     (let n = (of_char c :: nat) in
      if 0x30 \<le> n \<and> n \<le> 0x39 then Some (n - 0x30)
      else if 0x61 \<le> n \<and> n \<le> 0x66 then Some (n - 0x61 + 10)
      else if 0x41 \<le> n \<and> n \<le> 0x46 then Some (n - 0x41 + 10)
      else None)"

definition unescape :: "char \<Rightarrow> char option" where
  "unescape e =
     (if e = CHR 0x22 then Some (CHR 0x22)
      else if e = CHR 0x5C then Some (CHR 0x5C)
      else if e = CHR ''/'' then Some (CHR ''/'')
      else if e = CHR ''b'' then Some (CHR 0x08)
      else if e = CHR ''f'' then Some (CHR 0x0C)
      else if e = CHR ''n'' then Some (CHR 0x0A)
      else if e = CHR ''r'' then Some (CHR 0x0D)
      else if e = CHR ''t'' then Some (CHR 0x09)
      else None)"

text \<open>The number written by the four hexadecimal digits of an escape.\<close>

definition hex4 :: "char \<Rightarrow> char \<Rightarrow> char \<Rightarrow> char \<Rightarrow> nat option" where
  "hex4 a b c d =
     (case (hex_val a, hex_val b, hex_val c, hex_val d) of
        (Some k, Some l, Some m, Some n) \<Rightarrow> Some (4096 * k + 256 * l + 16 * m + n)
      | _ \<Rightarrow> None)"

text \<open>The UTF-8 bytes of a code point.\<close>

definition utf8 :: "nat \<Rightarrow> string" where
  "utf8 n =
     (if n < 0x80 then [char_of n]
      else if n < 0x800 then [char_of (0xC0 + n div 64), char_of (0x80 + n mod 64)]
      else if n < 0x10000
      then [char_of (0xE0 + n div 4096), char_of (0x80 + n div 64 mod 64),
            char_of (0x80 + n mod 64)]
      else [char_of (0xF0 + n div 262144), char_of (0x80 + n div 4096 mod 64),
            char_of (0x80 + n div 64 mod 64), char_of (0x80 + n mod 64)])"

fun parse_chars :: "string \<Rightarrow> (string \<times> string) option" where
  "parse_chars [] = None"
| "parse_chars (c # cs) =
     (if c = CHR 0x22 then Some ([], cs)
      else if c = CHR 0x5C then
        (case cs of
           [] \<Rightarrow> None
         | e # r \<Rightarrow>
             if e = CHR ''u'' then
               (case r of
                  a # b # c' # d # r' \<Rightarrow>
                    (case hex4 a b c' d of
                       None \<Rightarrow> None
                     | Some n \<Rightarrow>
                         if 0xD800 \<le> n \<and> n < 0xDC00 then
                           (case r' of
                              e1 # e2 # a2 # b2 # c2 # d2 # r'' \<Rightarrow>
                                if e1 = CHR 0x5C \<and> e2 = CHR ''u'' then
                                  (case hex4 a2 b2 c2 d2 of
                                     None \<Rightarrow> None
                                   | Some m \<Rightarrow>
                                       if 0xDC00 \<le> m \<and> m < 0xE000
                                       then map_option
                                              (\<lambda>(s, t).
                                                 (utf8 (0x10000 + (n - 0xD800) * 0x400 + (m - 0xDC00)) @ s,
                                                  t))
                                              (parse_chars r'')
                                       else None)
                                else None
                            | _ \<Rightarrow> None)
                         else if 0xDC00 \<le> n \<and> n < 0xE000 then None
                         else map_option (\<lambda>(s, t). (utf8 n @ s, t)) (parse_chars r'))
                | _ \<Rightarrow> None)
             else
               (case unescape e of
                  None \<Rightarrow> None
                | Some u \<Rightarrow> map_option (\<lambda>(s, t). (u # s, t)) (parse_chars r)))
      else if (of_char c :: nat) < 0x20 then None
      else map_option (\<lambda>(s, t). (c # s, t)) (parse_chars cs))"

function parse_items :: "string \<Rightarrow> string list option" where
  "parse_items s =
     (case skip_ws s of
        [] \<Rightarrow> None
      | c # cs \<Rightarrow>
          if c = CHR 0x22 then
            (case parse_chars cs of
               None \<Rightarrow> None
             | Some (x, r) \<Rightarrow>
                 (case skip_ws r of
                    [] \<Rightarrow> None
                  | d # r' \<Rightarrow>
                      if d = CHR '','' then map_option ((#) x) (parse_items r')
                      else if d = CHR '']'' \<and> skip_ws r' = [] then Some [x]
                      else None))
          else None)"
  by pat_completeness auto

definition parse_array :: "string \<Rightarrow> string list option" where
  "parse_array s =
     (case skip_ws s of
        [] \<Rightarrow> None
      | c # cs \<Rightarrow>
          if c = CHR ''['' then
            (case skip_ws cs of
               [] \<Rightarrow> None
             | d # r \<Rightarrow> if d = CHR '']'' then (if skip_ws r = [] then Some [] else None)
                        else parse_items cs)
          else None)"

definition JSON_parse :: "string \<Rightarrow> error + string list" where
  "JSON_parse s =
     (case parse_array s of
        None \<Rightarrow> Inl (SyntaxError ''Unexpected token in JSON'')
      | Some xs \<Rightarrow> Inr xs)"

section \<open>Stage outputs (services/enrichment.ts, services/evaluation.ts)\<close>

text \<open>
  The interfaces \<^verbatim>\<open>EnrichmentOutput\<close> and \<^verbatim>\<open>EvaluationOutput\<close>. The fields
  declared as unions of string literals (category, stackFit, capabilitiesFit,
  recommendation) hold whatever string the collaborator's JSON carried, since the
  executors cast the parsed reply without checking it; they are strings here, which
  includes the declared literals.

  A field declared \<^verbatim>\<open>number\<close> can hold null in a record read from the store
  (see the database below). The numbers of an enrichment are only stored and handed on,
  so they are \<open>number option\<close> everywhere, \<open>None\<close> for null; the optional
  \<^verbatim>\<open>costEstimate\<close> is absent, null or a number. The scores of an evaluation are
  compared by \<open>routeIdea\<close>, so their type is a parameter of the record: \<open>number\<close> in
  what the executor returns, \<open>number option\<close> in what \<^verbatim>\<open>getEvaluation\<close> reads.
\<close>

record MarketValidation =
  searchVolume :: "string option"
  competitors :: "string list"
  marketGap :: string

record TechnicalFeasibility =
  stackFit :: string
  dependencies :: "string list"
  riskFactors :: "string list"

record ResourceEstimate =
  estimatedHours :: "number option"
  skillsRequired :: "string list"
  costEstimate :: "number option option"

record EnrichmentOutput =
  category :: string
  complexityScore :: "number option"
  marketValidation :: MarketValidation
  technicalFeasibility :: TechnicalFeasibility
  resourceEstimate :: ResourceEstimate

record 'n EvaluationOutput =
  jtbdAnalysis :: string
  disruptionScore :: 'n
  capabilitiesFit :: string
  recommendation :: string
  caseStudyMatches :: "string list"
  evaluationScore :: 'n
  rationale :: string

section \<open>JSON text of the nested objects\<close>

text \<open>
  The three nested objects of an enrichment are stored as the text that
  \<^verbatim>\<open>JSON.stringify\<close> writes and read by \<^verbatim>\<open>JSON.parse\<close>. The printed form of a
  number belongs to the runtime; the text is modelled by the value it denotes, which is
  what \<^verbatim>\<open>JSON.parse\<close> returns for it. \<^verbatim>\<open>JSON.stringify\<close> writes a number that
  is not finite as null, leaves an absent property out and writes strings and arrays of
  strings so that they are read back as they were.
\<close>

datatype 'a json_text = JSON_text 'a

definition JSON_number :: "number option \<Rightarrow> number option" where
  "JSON_number v = (case v of Some (Num x) \<Rightarrow> Some (Num x) | _ \<Rightarrow> None)"

definition JSON_stringify_marketValidation :: "MarketValidation \<Rightarrow> MarketValidation json_text" where
  "JSON_stringify_marketValidation v = JSON_text v"

definition JSON_stringify_technicalFeasibility ::
  "TechnicalFeasibility \<Rightarrow> TechnicalFeasibility json_text" where
  "JSON_stringify_technicalFeasibility v = JSON_text v"

definition JSON_stringify_resourceEstimate :: "ResourceEstimate \<Rightarrow> ResourceEstimate json_text" where
  "JSON_stringify_resourceEstimate v =
     JSON_text (v\<lparr>estimatedHours := JSON_number (estimatedHours v),
                   costEstimate := map_option JSON_number (costEstimate v)\<rparr>)"

fun JSON_parse_object :: "'a json_text \<Rightarrow> 'a" where
  "JSON_parse_object (JSON_text v) = v"

section \<open>The database (db.ts)\<close>

text \<open>
  The three tables the server reads and writes, each a list of rows in insertion order.
  Columns keep their SQL names, prefixed where two tables share one. A nullable column
  that the program reads for null is an option, \<open>None\<close> for NULL. The three JSON
  columns of \<^verbatim>\<open>idea_enrichment\<close> hold the text of a nested object; the column
  \<^verbatim>\<open>case_study_matches\<close>, an array of strings, holds its text character by
  character. A DECIMAL column holds a number or NULL: SQLite keeps a NaN bound to it as
  NULL (\<open>sql_real\<close>), and every other number, the infinities included, as it is.
\<close>

definition sql_real :: "number option \<Rightarrow> number option" where
  "sql_real v = (if v = Some NaN then None else v)"

record ideas_row =
  ideas_id :: string
  source :: string
  raw_text :: string
  created_at :: string
  idea_context :: "string option"
  project_hint :: "string option"
  status :: string
  updated_at :: string

record enrichment_row =
  enrichment_idea_id :: string
  row_category :: string
  complexity_score :: "number option"
  market_validation :: "MarketValidation json_text"
  technical_feasibility :: "TechnicalFeasibility json_text"
  resource_estimate :: "ResourceEstimate json_text"
  enriched_at :: string
  enriched_by :: string

record evaluation_row =
  evaluation_idea_id :: string
  jtbd_analysis :: string
  disruption_score :: "number option"
  capabilities_fit :: string
  strategic_recommendation :: string
  case_study_matches :: "string option"
  evaluation_score :: "number option"
  evaluated_at :: string

record db =
  ideas :: "ideas_row list"
  idea_enrichment :: "enrichment_row list"
  idea_evaluation :: "evaluation_row list"

text \<open>\<^verbatim>\<open>SELECT * FROM ideas WHERE id = ?\<close> through \<^verbatim>\<open>db.get\<close>: the first row.\<close>

definition select_idea :: "db \<Rightarrow> string \<Rightarrow> ideas_row option" where
  "select_idea d i = find (\<lambda>r. ideas_id r = i) (ideas d)"

text \<open>
  \<^verbatim>\<open>INSERT INTO ideas\<close>: \<^verbatim>\<open>id\<close> is the primary key, so a row whose id is
  taken is refused.
\<close>

definition insert_idea :: "db \<Rightarrow> ideas_row \<Rightarrow> error + db" where
  "insert_idea d r =
     (case select_idea d (ideas_id r) of
        Some old \<Rightarrow> Inl (SqliteError ''SQLITE_CONSTRAINT: UNIQUE constraint failed: ideas.id'')
      | None \<Rightarrow> Inr (d\<lparr>ideas := ideas d @ [r]\<rparr>))"

text \<open>\<^verbatim>\<open>UPDATE ideas SET status = ?, updated_at = ? WHERE id = ?\<close>\<close>

definition update_idea :: "db \<Rightarrow> string \<Rightarrow> string \<Rightarrow> string \<Rightarrow> db" where
  "update_idea d new_status now i =
     d\<lparr>ideas := map (\<lambda>r. if ideas_id r = i then r\<lparr>status := new_status, updated_at := now\<rparr> else r)
                    (ideas d)\<rparr>"

text \<open>
  \<^verbatim>\<open>INSERT OR REPLACE INTO idea_enrichment\<close>: \<^verbatim>\<open>idea_id\<close> is the primary key,
  so the rows in conflict are deleted and the new row is inserted; it is also a foreign
  key into \<^verbatim>\<open>ideas\<close>, enforced (\<^verbatim>\<open>PRAGMA foreign_keys = ON\<close>). The argument
  holds the values bound to the statement; the row stored has its DECIMAL columns as
  SQLite keeps them.
\<close>

definition replace_enrichment :: "db \<Rightarrow> enrichment_row \<Rightarrow> error + db" where
  "replace_enrichment d r =
     (case select_idea d (enrichment_idea_id r) of
        None \<Rightarrow> Inl (SqliteError ''SQLITE_CONSTRAINT: FOREIGN KEY constraint failed'')
      | Some idea \<Rightarrow>
          Inr (d\<lparr>idea_enrichment :=
                   filter (\<lambda>x. enrichment_idea_id x \<noteq> enrichment_idea_id r) (idea_enrichment d) @
                   [r\<lparr>complexity_score := sql_real (complexity_score r)\<rparr>]\<rparr>))"

definition replace_evaluation :: "db \<Rightarrow> evaluation_row \<Rightarrow> error + db" where
  "replace_evaluation d r =
     (case select_idea d (evaluation_idea_id r) of
        None \<Rightarrow> Inl (SqliteError ''SQLITE_CONSTRAINT: FOREIGN KEY constraint failed'')
      | Some idea \<Rightarrow>
          Inr (d\<lparr>idea_evaluation :=
                   filter (\<lambda>x. evaluation_idea_id x \<noteq> evaluation_idea_id r) (idea_evaluation d) @
                   [r\<lparr>disruption_score := sql_real (disruption_score r),
                      evaluation_score := sql_real (evaluation_score r)\<rparr>]\<rparr>))"

section \<open>Persistence of the stage outputs\<close>

text \<open>\<^verbatim>\<open>saveEnrichment(db, ideaId, enrichment)\<close>; \<open>now\<close> is \<^verbatim>\<open>new Date().toISOString()\<close>.\<close>

definition saveEnrichment :: "db \<Rightarrow> string \<Rightarrow> EnrichmentOutput \<Rightarrow> string \<Rightarrow> error + db" where
  "saveEnrichment d ideaId enrichment now =
     replace_enrichment d
       \<lparr>enrichment_idea_id = ideaId,
        row_category = category enrichment,
        complexity_score = complexityScore enrichment,
        market_validation = JSON_stringify_marketValidation (marketValidation enrichment),
        technical_feasibility = JSON_stringify_technicalFeasibility (technicalFeasibility enrichment),
        resource_estimate = JSON_stringify_resourceEstimate (resourceEstimate enrichment),
        enriched_at = now,
        enriched_by = ''gemini-1.5-flash''\<rparr>"

text \<open>
  \<^verbatim>\<open>getEnrichment(db, ideaId)\<close>: null when there is no row; a number of the result is
  null where the row holds NULL or the text holds null.
\<close>

definition getEnrichment :: "db \<Rightarrow> string \<Rightarrow> EnrichmentOutput option" where
  "getEnrichment d ideaId =
     (case find (\<lambda>r. enrichment_idea_id r = ideaId) (idea_enrichment d) of
        None \<Rightarrow> None
      | Some row \<Rightarrow>
          Some \<lparr>category = row_category row,
                complexityScore = complexity_score row,
                marketValidation = JSON_parse_object (market_validation row),
                technicalFeasibility = JSON_parse_object (technical_feasibility row),
                resourceEstimate = JSON_parse_object (resource_estimate row)\<rparr>)"

text \<open>\<^verbatim>\<open>saveEvaluation(db, ideaId, evaluation)\<close>: no column receives the rationale.\<close>

definition saveEvaluation ::
  "db \<Rightarrow> string \<Rightarrow> number EvaluationOutput \<Rightarrow> string \<Rightarrow> error + db" where
  "saveEvaluation d ideaId evaluation now =
     replace_evaluation d
       \<lparr>evaluation_idea_id = ideaId,
        jtbd_analysis = jtbdAnalysis evaluation,
        disruption_score = Some (disruptionScore evaluation),
        capabilities_fit = capabilitiesFit evaluation,
        strategic_recommendation = recommendation evaluation,
        case_study_matches = Some (JSON_stringify (caseStudyMatches evaluation)),
        evaluation_score = Some (evaluationScore evaluation),
        evaluated_at = now\<rparr>"

text \<open>\<^verbatim>\<open>row.case_study_matches || '[]'\<close>: null and the empty string are falsy.\<close>

definition or_empty_array :: "string option \<Rightarrow> string" where
  "or_empty_array v = (case v of None \<Rightarrow> ''[]'' | Some t \<Rightarrow> if t = [] then ''[]'' else t)"

text \<open>
  \<^verbatim>\<open>getEvaluation(db, ideaId)\<close>: null when there is no row; the rationale of the
  result is the row's \<^verbatim>\<open>jtbd_analysis\<close>, and a score is null where the row holds
  NULL.
\<close>

definition getEvaluation ::
  "db \<Rightarrow> string \<Rightarrow> error + (number option) EvaluationOutput option" where
  "getEvaluation d ideaId =
     (case find (\<lambda>r. evaluation_idea_id r = ideaId) (idea_evaluation d) of
        None \<Rightarrow> Inr None
      | Some row \<Rightarrow>
          (case JSON_parse (or_empty_array (case_study_matches row)) of
             Inl e \<Rightarrow> Inl e
           | Inr matches \<Rightarrow>
               Inr (Some \<lparr>jtbdAnalysis = jtbd_analysis row,
                          disruptionScore = disruption_score row,
                          capabilitiesFit = capabilities_fit row,
                          recommendation = strategic_recommendation row,
                          caseStudyMatches = matches,
                          evaluationScore = evaluation_score row,
                          rationale = jtbd_analysis row\<rparr>)))"

section \<open>The server: responses and requests\<close>

text \<open>
  A response is its status code (200 when the handler calls \<^verbatim>\<open>res.json\<close> alone) and
  the fields of its JSON body. The body of \<^verbatim>\<open>POST /api/ideas\<close> is read for three
  fields, each absent or a string.
\<close>

record response =
  code :: nat
  body :: "(string \<times> string) list"

record idea_input =
  rawText :: "string option"
  ideaContext :: "string option"
  projectHint :: "string option"

text \<open>\<^verbatim>\<open>context || null\<close>\<close>

definition or_null :: "string option \<Rightarrow> string option" where
  "or_null v = (case v of None \<Rightarrow> None | Some t \<Rightarrow> if t = [] then None else Some t)"

text \<open>
  \<^verbatim>\<open>POST /api/ideas\<close>. \<open>ideaId\<close> is what \<^verbatim>\<open>uuidv4()\<close> returned and \<open>now\<close> the
  database's \<^verbatim>\<open>CURRENT_TIMESTAMP\<close>. The insertion is awaited before the response
  is sent, so the handler returns the response together with the database it leaves.
\<close>

definition post_ideas :: "string \<Rightarrow> string \<Rightarrow> idea_input \<Rightarrow> db \<Rightarrow> response \<times> db" where
  "post_ideas ideaId now input d =
     (case rawText input of
        None \<Rightarrow> (\<lparr>code = 400, body = [(''error'', ''rawText is required'')]\<rparr>, d)
      | Some text \<Rightarrow>
          if text = [] then (\<lparr>code = 400, body = [(''error'', ''rawText is required'')]\<rparr>, d)
          else
            (case insert_idea d
                    \<lparr>ideas_id = ideaId, source = ''manual'', raw_text = text, created_at = now,
                     idea_context = or_null (ideaContext input),
                     project_hint = or_null (projectHint input),
                     status = ''pending'', updated_at = now\<rparr> of
               Inl e \<Rightarrow> (\<lparr>code = 500, body = [(''error'', error_message e)]\<rparr>, d)
             | Inr d' \<Rightarrow>
                 (\<lparr>code = 201,
                   body = [(''id'', ideaId), (''status'', ''pending''),
                           (''message'', ''Idea created. Run enrichment to analyze.'')]\<rparr>, d')))"

section \<open>Detached tasks\<close>

text \<open>
  Each of the three run handlers answers and then starts an \<^verbatim>\<open>async\<close> closure that
  nobody awaits. A task is such a closure with the variables it captured: the id, the
  idea row read by the handler and, for the evaluation, the enrichment read by the
  handler.
\<close>

datatype task =
  EnrichTask string ideas_row
| EvaluateTask string ideas_row EnrichmentOutput
| AnalyzeTask string ideas_row

fun task_idea :: "task \<Rightarrow> string" where
  "task_idea (EnrichTask i idea) = i"
| "task_idea (EvaluateTask i idea enrichment) = i"
| "task_idea (AnalyzeTask i idea) = i"

text \<open>
  What a task meets while it runs: the two stage executors, which answer with a record
  or throw, and the clock; \<open>clock env k\<close> is the k-th reading of
  \<^verbatim>\<open>new Date().toISOString()\<close> by the task.
\<close>

record env =
  enrichIdea :: "string \<Rightarrow> string option \<Rightarrow> error + EnrichmentOutput"
  evaluateIdea :: "string \<Rightarrow> EnrichmentOutput \<Rightarrow> error + number EvaluationOutput"
  clock :: "nat \<Rightarrow> string"

text \<open>
  The effects of a task in the order the task performs them: a call of an executor, a
  completed write, a line on the console.
\<close>

datatype event =
  Call_enrichIdea string "string option"
| Call_evaluateIdea string EnrichmentOutput
| Done_saveEnrichment string EnrichmentOutput
| Done_saveEvaluation string "number EvaluationOutput"
| Done_update string string
| ConsoleLog string
| ConsoleError string error

fun route_name :: "route \<Rightarrow> string" where
  "route_name GENERATE_BLUEPRINT = ''GENERATE_BLUEPRINT''"
| "route_name DEFER_WITH_BLUEPRINT = ''DEFER_WITH_BLUEPRINT''"
| "route_name NEEDS_VALIDATION = ''NEEDS_VALIDATION''"
| "route_name ARCHIVE_WITH_LEARNING = ''ARCHIVE_WITH_LEARNING''"

text \<open>The conditional expression that both evaluating tasks bind to \<^verbatim>\<open>newStatus\<close>.\<close>

definition newStatus :: "route \<Rightarrow> string" where
  "newStatus route =
     (if route = GENERATE_BLUEPRINT then ''evaluated-ready''
      else if route = DEFER_WITH_BLUEPRINT then ''deferred''
      else if route = NEEDS_VALIDATION then ''research''
      else ''archived'')"

text \<open>The marks that open the console lines, as UTF-8.\<close>

definition mark_ok :: string where
  "mark_ok = [CHR 0xE2, CHR 0x9C, CHR 0x85, CHR 0x20]"

definition mark_failed :: string where
  "mark_failed = [CHR 0xE2, CHR 0x9D, CHR 0x8C, CHR 0x20]"

definition mark_running :: string where
  "mark_running = [CHR 0xF0, CHR 0x9F, CHR 0x94, CHR 0x84, CHR 0x20]"

text \<open>The task of \<^verbatim>\<open>POST /api/ideas/:id/enrich\<close>.\<close>

definition enrich_task :: "env \<Rightarrow> string \<Rightarrow> ideas_row \<Rightarrow> db \<Rightarrow> db \<times> event list" where
  "enrich_task env i idea d =
     (let failed = (\<lambda>e. ConsoleError (mark_failed @ ''Enrichment failed for idea '' @ i @ '':'') e);
          called = Call_enrichIdea (raw_text idea) (idea_context idea)
      in case enrichIdea env (raw_text idea) (idea_context idea) of
           Inl e \<Rightarrow> (d, [called, failed e])
         | Inr enrichment \<Rightarrow>
             (case saveEnrichment d i enrichment (clock env 0) of
                Inl e \<Rightarrow> (d, [called, failed e])
              | Inr d1 \<Rightarrow>
                  (update_idea d1 ''enriched'' (clock env 1) i,
                   [called, Done_saveEnrichment i enrichment, Done_update ''enriched'' i,
                    ConsoleLog (mark_ok @ ''Enrichment completed for idea '' @ i)])))"

text \<open>The task of \<^verbatim>\<open>POST /api/ideas/:id/evaluate\<close>.\<close>

definition evaluate_task ::
  "env \<Rightarrow> string \<Rightarrow> ideas_row \<Rightarrow> EnrichmentOutput \<Rightarrow> db \<Rightarrow> db \<times> event list" where
  "evaluate_task env i idea enrichment d =
     (let failed = (\<lambda>e. ConsoleError (mark_failed @ ''Evaluation failed for idea '' @ i @ '':'') e);
          called = Call_evaluateIdea (raw_text idea) enrichment
      in case evaluateIdea env (raw_text idea) enrichment of
           Inl e \<Rightarrow> (d, [called, failed e])
         | Inr evaluation \<Rightarrow>
             (case saveEvaluation d i evaluation (clock env 0) of
                Inl e \<Rightarrow> (d, [called, failed e])
              | Inr d1 \<Rightarrow>
                  (let route = routeIdea (evaluationScore evaluation) (recommendation evaluation)
                   in (update_idea d1 (newStatus route) (clock env 1) i,
                       [called, Done_saveEvaluation i evaluation, Done_update (newStatus route) i,
                        ConsoleLog (mark_ok @ ''Evaluation completed for idea '' @ i @ ''. Route: ''
                          @ route_name route @ '', Status: '' @ newStatus route)]))))"

text \<open>The task of \<^verbatim>\<open>POST /api/ideas/:id/analyze\<close>: both stages in sequence.\<close>

definition analyze_task :: "env \<Rightarrow> string \<Rightarrow> ideas_row \<Rightarrow> db \<Rightarrow> db \<times> event list" where
  "analyze_task env i idea d =
     (let failed = (\<lambda>e. ConsoleError (mark_failed @ ''Analysis failed for idea '' @ i @ '':'') e);
          step1 = [ConsoleLog (mark_running @ ''Enriching idea '' @ i @ ''...''),
                   Call_enrichIdea (raw_text idea) (idea_context idea)]
      in case enrichIdea env (raw_text idea) (idea_context idea) of
           Inl e \<Rightarrow> (d, step1 @ [failed e])
         | Inr enrichment \<Rightarrow>
             (case saveEnrichment d i enrichment (clock env 0) of
                Inl e \<Rightarrow> (d, step1 @ [failed e])
              | Inr d1 \<Rightarrow>
                  (let step2 = step1 @
                         [Done_saveEnrichment i enrichment,
                          ConsoleLog (mark_ok @ ''Enrichment complete''),
                          ConsoleLog (mark_running @ ''Evaluating idea '' @ i @ ''...''),
                          Call_evaluateIdea (raw_text idea) enrichment]
                   in case evaluateIdea env (raw_text idea) enrichment of
                        Inl e \<Rightarrow> (d1, step2 @ [failed e])
                      | Inr evaluation \<Rightarrow>
                          (case saveEvaluation d1 i evaluation (clock env 1) of
                             Inl e \<Rightarrow> (d1, step2 @ [failed e])
                           | Inr d2 \<Rightarrow>
                               (let route = routeIdea (evaluationScore evaluation)
                                              (recommendation evaluation)
                                in (update_idea d2 (newStatus route) (clock env 2) i,
                                    step2 @
                                    [Done_saveEvaluation i evaluation,
                                     ConsoleLog (mark_ok @ ''Evaluation complete''),
                                     Done_update (newStatus route) i,
                                     ConsoleLog (mark_ok @ ''Analysis complete. Route: ''
                                       @ route_name route @ '', Status: '' @ newStatus route)]))))))"

fun run_task :: "env \<Rightarrow> task \<Rightarrow> db \<Rightarrow> db \<times> event list" where
  "run_task env (EnrichTask i idea) d = enrich_task env i idea d"
| "run_task env (EvaluateTask i idea enrichment) d = evaluate_task env i idea enrichment d"
| "run_task env (AnalyzeTask i idea) d = analyze_task env i idea d"

section \<open>The run handlers\<close>

text \<open>
  The synchronous part of each run handler: the checks, the response, and the task it
  starts, if any. None of them writes to the database.
\<close>

definition not_found :: response where
  "not_found = \<lparr>code = 404, body = [(''error'', ''Idea not found'')]\<rparr>"

definition post_enrich :: "string \<Rightarrow> db \<Rightarrow> response \<times> task option" where
  "post_enrich i d =
     (case select_idea d i of
        None \<Rightarrow> (not_found, None)
      | Some idea \<Rightarrow>
          (\<lparr>code = 200,
            body = [(''status'', ''enriching''), (''message'', ''Processing enrichment...'')]\<rparr>,
           Some (EnrichTask i idea)))"

definition post_evaluate :: "string \<Rightarrow> db \<Rightarrow> response \<times> task option" where
  "post_evaluate i d =
     (case select_idea d i of
        None \<Rightarrow> (not_found, None)
      | Some idea \<Rightarrow>
          (case getEnrichment d i of
             None \<Rightarrow>
               (\<lparr>code = 400,
                 body = [(''error'',
                          ''Idea must be enriched before evaluation. Run /enrich first.'')]\<rparr>,
                None)
           | Some enrichment \<Rightarrow>
               (\<lparr>code = 200,
                 body = [(''status'', ''evaluating''),
                         (''message'', ''Processing strategic evaluation...'')]\<rparr>,
                Some (EvaluateTask i idea enrichment))))"

definition post_analyze :: "string \<Rightarrow> db \<Rightarrow> response \<times> task option" where
  "post_analyze i d =
     (case select_idea d i of
        None \<Rightarrow> (not_found, None)
      | Some idea \<Rightarrow>
          (\<lparr>code = 200,
            body = [(''status'', ''analyzing''),
                    (''message'', ''Running full pipeline: enrichment ''
                       @ [CHR 0xE2, CHR 0x86, CHR 0x92] @ '' evaluation'')]\<rparr>,
           Some (AnalyzeTask i idea)))"

section \<open>The running server\<close>

text \<open>
  The state of the process: the database and the tasks started and not yet finished.
  The program keeps no list of them; \<open>inflight\<close> stands for the closures pending in the
  runtime. A request is handled to its response in one step; a task started by it runs
  later, when \<open>complete\<close> picks it.
\<close>

record server =
  store :: db
  inflight :: "task list"

datatype request =
  POST_ideas idea_input
| POST_enrich string
| POST_evaluate string
| POST_analyze string

definition start :: "task option \<Rightarrow> server \<Rightarrow> server" where
  "start t s = (case t of None \<Rightarrow> s | Some x \<Rightarrow> s\<lparr>inflight := inflight s @ [x]\<rparr>)"

fun handle :: "string \<Rightarrow> string \<Rightarrow> request \<Rightarrow> server \<Rightarrow> response \<times> server" where
  "handle uuid now (POST_ideas input) s =
     (case post_ideas uuid now input (store s) of (res, d) \<Rightarrow> (res, s\<lparr>store := d\<rparr>))"
| "handle uuid now (POST_enrich i) s =
     (case post_enrich i (store s) of (res, t) \<Rightarrow> (res, start t s))"
| "handle uuid now (POST_evaluate i) s =
     (case post_evaluate i (store s) of (res, t) \<Rightarrow> (res, start t s))"
| "handle uuid now (POST_analyze i) s =
     (case post_analyze i (store s) of (res, t) \<Rightarrow> (res, start t s))"

text \<open>The k-th task in flight runs to its end and leaves the list.\<close>

definition complete :: "env \<Rightarrow> nat \<Rightarrow> server \<Rightarrow> server \<times> event list" where
  "complete env k s =
     (if k < length (inflight s)
      then (case run_task env (inflight s ! k) (store s) of
              (d, trace) \<Rightarrow>
                (\<lparr>store = d, inflight = take k (inflight s) @ drop (Suc k) (inflight s)\<rparr>, trace))
      else (s, []))"

text \<open>The number of tasks in flight on one idea.\<close>

definition inflight_on :: "string \<Rightarrow> server \<Rightarrow> nat" where
  "inflight_on i s = length (filter (\<lambda>t. task_idea t = i) (inflight s))"

section \<open>Views of the tables\<close>

text \<open>The rows of \<^verbatim>\<open>idea_enrichment\<close> for one idea, and the rows for the others.\<close>

definition enrichment_records :: "db \<Rightarrow> string \<Rightarrow> enrichment_row list" where
  "enrichment_records d i = filter (\<lambda>r. enrichment_idea_id r = i) (idea_enrichment d)"

definition other_enrichment_records :: "db \<Rightarrow> string \<Rightarrow> enrichment_row list" where
  "other_enrichment_records d i = filter (\<lambda>r. enrichment_idea_id r \<noteq> i) (idea_enrichment d)"


section \<open>Example data\<close>

text \<open>
  One idea as \<^verbatim>\<open>POST /api/ideas\<close> stores it, the outputs of the two stages, and three
  behaviours of the collaborators: both answer, the enrichment fails, the evaluation fails.
\<close>

definition input1 :: idea_input where
  "input1 = \<lparr>rawText = Some ''Build a tool'', ideaContext = Some [], projectHint = None\<rparr>"

definition idea1 :: ideas_row where
  "idea1 =
     \<lparr>ideas_id = ''id1'', source = ''manual'', raw_text = ''Build a tool'',
      created_at = ''2025-01-01 00:00:00'', idea_context = None, project_hint = None,
      status = ''pending'', updated_at = ''2025-01-01 00:00:00''\<rparr>"

definition db0 :: db where
  "db0 = \<lparr>ideas = [], idea_enrichment = [], idea_evaluation = []\<rparr>"

definition db1 :: db where
  "db1 = \<lparr>ideas = [idea1], idea_enrichment = [], idea_evaluation = []\<rparr>"

definition enrichment1 :: EnrichmentOutput where
  "enrichment1 =
     \<lparr>category = ''product'', complexityScore = Some (Num 0.4),
      marketValidation = \<lparr>searchVolume = Some ''medium'', competitors = [''Acme''],
                           marketGap = ''No simple tool''\<rparr>,
      technicalFeasibility = \<lparr>stackFit = ''good'', dependencies = [''sqlite''],
                               riskFactors = [''scope'']\<rparr>,
      resourceEstimate = \<lparr>estimatedHours = Some (Num 40), skillsRequired = [''typescript''],
                           costEstimate = None\<rparr>\<rparr>"

definition evaluation1 :: "number \<Rightarrow> string \<Rightarrow> number EvaluationOutput" where
  "evaluation1 score rec =
     \<lparr>jtbdAnalysis = ''Teams need a tool'', disruptionScore = Num 0.5,
      capabilitiesFit = ''strong'', recommendation = rec,
      caseStudyMatches = [''Disk drives'', ''Steel \"mini\" mills''],
      evaluationScore = score, rationale = ''High fit''\<rparr>"

definition clock1 :: "nat \<Rightarrow> string" where
  "clock1 k = (if k = 0 then ''2025-01-01T00:00:01.000Z''
               else if k = 1 then ''2025-01-01T00:00:02.000Z''
               else ''2025-01-01T00:00:03.000Z'')"

definition env_ok :: "number \<Rightarrow> string \<Rightarrow> env" where
  "env_ok score rec =
     \<lparr>enrichIdea = (\<lambda>idea c. Inr enrichment1),
      evaluateIdea = (\<lambda>idea enrichment. Inr (evaluation1 score rec)),
      clock = clock1\<rparr>"

definition env_enrich_fails :: env where
  "env_enrich_fails =
     \<lparr>enrichIdea = (\<lambda>idea c. Inl (Error ''Failed to enrich idea: fetch failed'')),
      evaluateIdea = (\<lambda>idea enrichment. Inr (evaluation1 (Num 90) ''build-now'')),
      clock = clock1\<rparr>"

definition env_evaluate_fails :: env where
  "env_evaluate_fails =
     \<lparr>enrichIdea = (\<lambda>idea c. Inr enrichment1),
      evaluateIdea = (\<lambda>idea enrichment. Inl (Error ''Failed to evaluate idea: fetch failed'')),
      clock = clock1\<rparr>"

definition server0 :: server where
  "server0 = \<lparr>store = db0, inflight = []\<rparr>"

definition server1 :: server where
  "server1 = \<lparr>store = db1, inflight = []\<rparr>"

text \<open>The text of \<^verbatim>\<open>["Disk drives","Steel \"mini\" mills"]\<close>, and the database holding it.\<close>

definition matches_text :: string where
  "matches_text =
     ''[\"Disk drives\",\"Steel '' @ [CHR 0x5C] @ ''\"mini'' @ [CHR 0x5C] @ ''\" mills\"]''"

definition db2 :: db where
  "db2 = \<lparr>ideas = [idea1], idea_enrichment = [],
          idea_evaluation =
            [\<lparr>evaluation_idea_id = ''id1'', jtbd_analysis = ''Teams need a tool'',
              disruption_score = Some (Num 0.5), capabilities_fit = ''strong'',
              strategic_recommendation = ''build-now'',
              case_study_matches = Some matches_text,
              evaluation_score = Some (Num 90),
              evaluated_at = ''2025-01-01T00:00:01.000Z''\<rparr>]\<rparr>"

text \<open>The database after the enrichment of the example idea alone was saved.\<close>

definition db3 :: db where
  "db3 = \<lparr>ideas = [idea1],
          idea_enrichment =
            [\<lparr>enrichment_idea_id = ''id1'', row_category = ''product'',
              complexity_score = Some (Num 0.4),
              market_validation = JSON_text (marketValidation enrichment1),
              technical_feasibility = JSON_text (technicalFeasibility enrichment1),
              resource_estimate = JSON_text (resourceEstimate enrichment1),
              enriched_at = ''2025-01-01T00:00:01.000Z'',
              enriched_by = ''gemini-1.5-flash''\<rparr>],
          idea_evaluation = []\<rparr>"

section \<open>Facts about the comparison\<close>

lemma js_lt_not_ge: "js_lt a b \<Longrightarrow> \<not> js_ge a b"
  by (cases a; cases b) auto

lemma js_ge_Num_trans: "js_ge a (Num x) \<Longrightarrow> y \<le> x \<Longrightarrow> js_ge a (Num y)"
  by (cases a) auto

section \<open>Facts about the JSON text\<close>

lemma parse_chars_shorter: "parse_chars s = Some (x, r) \<Longrightarrow> length r < length s"
proof (induction s arbitrary: x r rule: parse_chars.induct)
  case 1
  then show ?case by simp
next
  case (2 c cs)
  then show ?case
    by (fastforce split: if_splits list.splits option.splits)
qed

lemma skip_ws_shorter: "skip_ws s = c # r \<Longrightarrow> length r < length s"
proof -
  assume a: "skip_ws s = c # r"
  have "length (skip_ws s) \<le> length s"
    by (simp add: skip_ws_def length_dropWhile_le)
  with a show ?thesis by simp
qed

termination parse_items
proof (relation "measure length")
  show "wf (measure length)" by simp
next
  fix s c cs p x r d r'
  assume "skip_ws s = c # cs" "parse_chars cs = Some p" "(x, r) = p" "skip_ws r = d # r'"
  then have "length cs < length s" "length r < length cs" "length r' < length r"
    using skip_ws_shorter parse_chars_shorter by metis+
  then show "(r', s) \<in> measure length" by simp
qed


lemma hex_val_hex_digit: "k < 16 \<Longrightarrow> hex_val (hex_digit k) = Some k"
proof -
  assume "k < 16"
  then have "k \<in> {0, 1, 2, 3, 4, 5, 6, 7, 8, 9, 10, 11, 12, 13, 14, 15}"
    by simp arith
  then show ?thesis
    by (auto simp: hex_val_def hex_digit_def)
qed

lemma hex4_control:
  assumes "(of_char c :: nat) < 0x20"
  shows "hex4 (CHR ''0'') (CHR ''0'') (hex_digit (of_char c div 16)) (hex_digit (of_char c mod 16))
         = Some (of_char c)"
proof -
  let ?n = "of_char c :: nat"
  have d: "?n div 16 < 16" and m: "?n mod 16 < 16"
    using assms by auto
  have z: "hex_val (CHR ''0'') = Some 0"
    by (simp add: hex_val_def)
  show ?thesis
    by (simp add: hex4_def z hex_val_hex_digit [OF d] hex_val_hex_digit [OF m])
qed

lemma utf8_ascii: "(of_char c :: nat) < 0x80 \<Longrightarrow> utf8 (of_char c) = [c]"
  by (simp add: utf8_def)

lemma parse_chars_quote_char:
  "parse_chars (quote_char c @ rest) = map_option (\<lambda>(s, t). (c # s, t)) (parse_chars rest)"
proof (cases "c \<in> {CHR 0x08, CHR 0x09, CHR 0x0A, CHR 0x0C, CHR 0x0D, CHR 0x22, CHR 0x5C}")
  case True
  then show ?thesis
    by (auto simp: quote_char_def unescape_def)
next
  case False
  show ?thesis
  proof (cases "(of_char c :: nat) < 0x20")
    case True
    with False show ?thesis
      by (simp add: quote_char_def hex4_control utf8_ascii)
  next
    case ge: False
    with False show ?thesis
      by (simp add: quote_char_def)
  qed
qed

lemma parse_chars_quoted:
  "parse_chars (concat (map quote_char s) @ CHR 0x22 # rest) = Some (s, rest)"
  by (induction s) (simp_all add: parse_chars_quote_char)

lemma skip_ws_nonws [simp]: "\<not> is_ws c \<Longrightarrow> skip_ws (c # s) = c # s"
  by (simp add: skip_ws_def)

lemma skip_ws_Nil [simp]: "skip_ws [] = []"
  by (simp add: skip_ws_def)

lemma parse_items_joined:
  "parse_items (join_comma (map QuoteJSONString (x # xs)) @ [CHR '']'']) = Some (x # xs)"
proof (induction xs arbitrary: x)
  case Nil
  show ?case
    by (simp add: QuoteJSONString_def parse_chars_quoted is_ws_def)
next
  case (Cons y ys)
  have "parse_items (join_comma (map QuoteJSONString (x # y # ys)) @ [CHR '']''])
        = map_option ((#) x) (parse_items (join_comma (map QuoteJSONString (y # ys)) @ [CHR '']'']))"
    by (subst parse_items.simps) (simp add: QuoteJSONString_def parse_chars_quoted is_ws_def)
  with Cons show ?case by simp
qed

lemma parse_array_stringify: "parse_array (JSON_stringify xs) = Some xs"
proof (cases xs)
  case Nil
  then show ?thesis
    by (simp add: parse_array_def JSON_stringify_def is_ws_def)
next
  case (Cons y ys)
  have "parse_array (JSON_stringify (y # ys))
        = parse_items (join_comma (map QuoteJSONString (y # ys)) @ [CHR '']''])"
    by (cases ys) (simp_all add: parse_array_def JSON_stringify_def QuoteJSONString_def is_ws_def)
  with Cons show ?thesis
    by (simp only: parse_items_joined)
qed

lemma JSON_parse_stringify: "JSON_parse (JSON_stringify xs) = Inr xs"
  by (simp add: JSON_parse_def parse_array_stringify)

lemma JSON_stringify_nonempty: "JSON_stringify xs \<noteq> []"
  by (simp add: JSON_stringify_def)

section \<open>Facts about the tables\<close>

lemma find_map_same:
  "(\<And>x. P (f x) = P x) \<Longrightarrow> find P (map f xs) = map_option f (find P xs)"
  by (induction xs) auto

lemma find_replaced: "P r \<Longrightarrow> find P (filter (\<lambda>x. \<not> P x) xs @ [r]) = Some r"
  by (induction xs) auto

lemma find_append_new: "find P xs = None \<Longrightarrow> P r \<Longrightarrow> find P (xs @ [r]) = Some r"
  by (induction xs) (auto split: if_splits)

lemma select_idea_update:
  "select_idea (update_idea d s t i) j =
     map_option (\<lambda>r. if ideas_id r = i then r\<lparr>status := s, updated_at := t\<rparr> else r) (select_idea d j)"
  unfolding select_idea_def update_idea_def
  by (simp add: find_map_same)

lemma select_idea_cong: "ideas d' = ideas d \<Longrightarrow> select_idea d' i = select_idea d i"
  by (simp add: select_idea_def)

lemma select_idea_id: "select_idea d i = Some r \<Longrightarrow> ideas_id r = i"
  by (auto simp: select_idea_def dest: find_Some_iff [THEN iffD1])

lemma select_idea_None_iff: "select_idea d u = None \<longleftrightarrow> u \<notin> ideas_id ` set (ideas d)"
  by (auto simp: select_idea_def find_None_iff)


lemma status_after_update:
  "select_idea d i = Some r \<Longrightarrow>
   map_option status (select_idea (update_idea d s t i) i) = Some s"
  by (simp add: select_idea_update select_idea_id)

lemma saveEnrichment_Inr:
  "select_idea d i = Some idea \<Longrightarrow>
   saveEnrichment d i e t =
     Inr (d\<lparr>idea_enrichment := filter (\<lambda>x. enrichment_idea_id x \<noteq> i) (idea_enrichment d) @
            [\<lparr>enrichment_idea_id = i, row_category = category e,
              complexity_score = sql_real (complexityScore e),
              market_validation = JSON_stringify_marketValidation (marketValidation e),
              technical_feasibility = JSON_stringify_technicalFeasibility (technicalFeasibility e),
              resource_estimate = JSON_stringify_resourceEstimate (resourceEstimate e),
              enriched_at = t, enriched_by = ''gemini-1.5-flash''\<rparr>]\<rparr>)"
  by (simp add: saveEnrichment_def replace_enrichment_def)

lemma saveEnrichment_frame:
  "saveEnrichment d i e t = Inr d' \<Longrightarrow>
   ideas d' = ideas d \<and> idea_evaluation d' = idea_evaluation d \<and> select_idea d i \<noteq> None"
  by (auto simp: saveEnrichment_def replace_enrichment_def split: option.splits)

lemma saveEnrichment_overwrites:
  assumes "saveEnrichment d i e t1 = Inr d1"
  shows "saveEnrichment d1 i e' t2 = saveEnrichment d i e' t2"
proof -
  obtain r where r: "select_idea d i = Some r"
    using assms saveEnrichment_frame by blast
  then have r1: "select_idea d1 i = Some r"
    using assms saveEnrichment_frame select_idea_cong by metis
  have d1: "d1 = d\<lparr>idea_enrichment := filter (\<lambda>x. enrichment_idea_id x \<noteq> i) (idea_enrichment d) @
            [\<lparr>enrichment_idea_id = i, row_category = category e,
              complexity_score = sql_real (complexityScore e),
              market_validation = JSON_stringify_marketValidation (marketValidation e),
              technical_feasibility = JSON_stringify_technicalFeasibility (technicalFeasibility e),
              resource_estimate = JSON_stringify_resourceEstimate (resourceEstimate e),
              enriched_at = t1, enriched_by = ''gemini-1.5-flash''\<rparr>]\<rparr>"
    using assms saveEnrichment_Inr [OF r] by simp
  show ?thesis
    unfolding saveEnrichment_Inr [OF r1] saveEnrichment_Inr [OF r]
    by (simp add: d1)
qed

lemma enrichment_records_saveEnrichment:
  "saveEnrichment d i e t = Inr d' \<Longrightarrow>
   length (enrichment_records d' i) = 1 \<and> other_enrichment_records d' i = other_enrichment_records d i"
  by (auto simp: saveEnrichment_def replace_enrichment_def enrichment_records_def
        other_enrichment_records_def split: option.splits)

lemma getEnrichment_saveEnrichment:
  "saveEnrichment d i e t = Inr d' \<Longrightarrow>
   getEnrichment d' i =
     Some \<lparr>category = category e,
           complexityScore = sql_real (complexityScore e),
           marketValidation = marketValidation e,
           technicalFeasibility = technicalFeasibility e,
           resourceEstimate =
             (resourceEstimate e)
               \<lparr>estimatedHours := JSON_number (estimatedHours (resourceEstimate e)),
                costEstimate := map_option JSON_number (costEstimate (resourceEstimate e))\<rparr>\<rparr>"
  by (auto simp: saveEnrichment_def replace_enrichment_def getEnrichment_def
        JSON_stringify_marketValidation_def JSON_stringify_technicalFeasibility_def
        JSON_stringify_resourceEstimate_def
        find_replaced [where P = "\<lambda>r. enrichment_idea_id r = i", simplified]
      split: option.splits)

lemma getEnrichment_saveEnrichment_twice:
  "saveEnrichment d i e t = Inr d1 \<Longrightarrow> saveEnrichment d' i e t' = Inr d2 \<Longrightarrow>
   getEnrichment d2 i = getEnrichment d1 i \<and> getEnrichment d1 i \<noteq> None"
  by (simp add: getEnrichment_saveEnrichment)

lemma saveEvaluation_Inr:
  "select_idea d i = Some idea \<Longrightarrow> \<exists>d'. saveEvaluation d i e t = Inr d'"
  by (simp add: saveEvaluation_def replace_evaluation_def)

lemma saveEvaluation_frame:
  "saveEvaluation d i e t = Inr d' \<Longrightarrow>
   ideas d' = ideas d \<and> idea_enrichment d' = idea_enrichment d \<and> select_idea d i \<noteq> None"
  by (auto simp: saveEvaluation_def replace_evaluation_def split: option.splits)

lemma getEvaluation_saveEvaluation:
  assumes "saveEvaluation d i e t = Inr d'"
  shows "getEvaluation d' i =
     Inr (Some \<lparr>jtbdAnalysis = jtbdAnalysis e,
                disruptionScore = sql_real (Some (disruptionScore e)),
                capabilitiesFit = capabilitiesFit e,
                recommendation = recommendation e,
                caseStudyMatches = caseStudyMatches e,
                evaluationScore = sql_real (Some (evaluationScore e)),
                rationale = jtbdAnalysis e\<rparr>)"
proof -
  let ?row = "\<lparr>evaluation_idea_id = i, jtbd_analysis = jtbdAnalysis e,
      disruption_score = sql_real (Some (disruptionScore e)),
      capabilities_fit = capabilitiesFit e,
      strategic_recommendation = recommendation e,
      case_study_matches = Some (JSON_stringify (caseStudyMatches e)),
      evaluation_score = sql_real (Some (evaluationScore e)), evaluated_at = t\<rparr>"
  have "idea_evaluation d' = filter (\<lambda>x. evaluation_idea_id x \<noteq> i) (idea_evaluation d) @ [?row]"
    using assms by (auto simp: saveEvaluation_def replace_evaluation_def split: option.splits)
  then have "find (\<lambda>r. evaluation_idea_id r = i) (idea_evaluation d') = Some ?row"
    using find_replaced [where P = "\<lambda>r. evaluation_idea_id r = i" and r = ?row] by simp
  moreover have "or_empty_array (Some (JSON_stringify (caseStudyMatches e)))
      = JSON_stringify (caseStudyMatches e)"
    by (simp add: or_empty_array_def JSON_stringify_nonempty)
  ultimately show ?thesis
    by (simp add: getEvaluation_def JSON_parse_stringify)
qed

section \<open>Facts about the tasks\<close>





section \<open>Facts about the example data\<close>

lemma select_idea_db1: "select_idea db1 ''id1'' = Some idea1"
  by (simp add: select_idea_def db1_def idea1_def)

lemma idea1_simps:
  "raw_text idea1 = ''Build a tool''" "idea_context idea1 = None" "ideas_id idea1 = ''id1''"
  "status idea1 = ''pending''"
  by (simp_all add: idea1_def)

lemma env_ok_simps:
  "enrichIdea (env_ok score rec) a b = Inr enrichment1"
  "evaluateIdea (env_ok score rec) a c = Inr (evaluation1 score rec)"
  "evaluationScore (evaluation1 score rec) = score"
  "recommendation (evaluation1 score rec) = rec"
  by (simp_all add: env_ok_def evaluation1_def)

lemma env_fails_simps:
  "enrichIdea env_enrich_fails a b = Inl (Error ''Failed to enrich idea: fetch failed'')"
  "enrichIdea env_evaluate_fails a b = Inr enrichment1"
  "evaluateIdea env_evaluate_fails a c = Inl (Error ''Failed to evaluate idea: fetch failed'')"
  "clock env_evaluate_fails = clock1" "clock env_enrich_fails = clock1"
  "clock (env_ok score rec) = clock1"
  by (simp_all add: env_enrich_fails_def env_evaluate_fails_def env_ok_def)

lemma save_example:
  "saveEnrichment db1 ''id1'' enrichment1 ''2025-01-01T00:00:01.000Z'' = Inr db3"
  by (simp add: saveEnrichment_Inr [OF select_idea_db1])
    (simp add: db1_def db3_def enrichment1_def sql_real_def JSON_number_def
      JSON_stringify_marketValidation_def JSON_stringify_technicalFeasibility_def
      JSON_stringify_resourceEstimate_def)

lemma stringify_example:
  "JSON_stringify [''Disk drives'', ''Steel \"mini\" mills''] = matches_text"
  by (simp add: JSON_stringify_def QuoteJSONString_def quote_char_def matches_text_def)

lemma complete_example:
  "complete env 0 \<lparr>store = db1, inflight = [AnalyzeTask ''id1'' idea1]\<rparr> =
     (\<lparr>store = fst (analyze_task env ''id1'' idea1 db1), inflight = []\<rparr>,
      snd (analyze_task env ''id1'' idea1 db1))"
  by (simp add: complete_def split_beta)

lemma create_example:
  "handle ''id1'' ''2025-01-01 00:00:00'' (POST_ideas input1) server0 =
     (\<lparr>code = 201,
       body = [(''id'', ''id1''), (''status'', ''pending''),
               (''message'', ''Idea created. Run enrichment to analyze.'')]\<rparr>, server1)"
  by (simp add: post_ideas_def insert_idea_def select_idea_def input1_def server0_def server1_def
      db0_def db1_def idea1_def or_null_def)

lemma analyze_example:
  "handle u t (POST_analyze ''id1'') server1 =
     (\<lparr>code = 200,
       body = [(''status'', ''analyzing''),
               (''message'', ''Running full pipeline: enrichment ''
                  @ [CHR 0xE2, CHR 0x86, CHR 0x92] @ '' evaluation'')]\<rparr>,
      \<lparr>store = db1, inflight = [AnalyzeTask ''id1'' idea1]\<rparr>)"
  by (simp add: post_analyze_def start_def server1_def select_idea_db1)

section \<open>The claims\<close>

text \<open>
  C1. For every evaluationScore and recommendation, routeIdea returns the first matching
  rule of the ordered cascade: GENERATE_BLUEPRINT iff the score is at least 80 and the
  recommendation is "build-now"; otherwise DEFER_WITH_BLUEPRINT iff the score is at least
  60; otherwise NEEDS_VALIDATION iff the score is at least 40; otherwise
  ARCHIVE_WITH_LEARNING. A score of 85 with recommendation "skip" gives
  DEFER_WITH_BLUEPRINT, and the thresholds 80, 60 and 40 are inclusive.
\<close>

theorem routeIdea_cascade:
  "(routeIdea s r = GENERATE_BLUEPRINT \<longleftrightarrow> js_ge s (Num 80) \<and> r = ''build-now'')
   \<and> (routeIdea s r = DEFER_WITH_BLUEPRINT \<longleftrightarrow>
        \<not> (js_ge s (Num 80) \<and> r = ''build-now'') \<and> js_ge s (Num 60))
   \<and> (routeIdea s r = NEEDS_VALIDATION \<longleftrightarrow>
        \<not> (js_ge s (Num 80) \<and> r = ''build-now'') \<and> \<not> js_ge s (Num 60) \<and> js_ge s (Num 40))
   \<and> (routeIdea s r = ARCHIVE_WITH_LEARNING \<longleftrightarrow>
        \<not> (js_ge s (Num 80) \<and> r = ''build-now'') \<and> \<not> js_ge s (Num 60) \<and> \<not> js_ge s (Num 40))
   \<and> routeIdea (Num 85) ''skip'' = DEFER_WITH_BLUEPRINT
   \<and> routeIdea (Num 80) ''build-now'' = GENERATE_BLUEPRINT
   \<and> routeIdea (Num 60) r = DEFER_WITH_BLUEPRINT
   \<and> routeIdea (Num 40) r = NEEDS_VALIDATION"
  by (simp add: routeIdea_def ROUTING_THRESHOLDS_def)

theorem routeIdea_cascade_witness:
  "routeIdea (Num 79.5) ''build-now'' = DEFER_WITH_BLUEPRINT
   \<and> routeIdea (Num 59) ''build-now'' = NEEDS_VALIDATION
   \<and> routeIdea (Num 39) ''build-later'' = ARCHIVE_WITH_LEARNING
   \<and> routeIdea (Num 100) ''build-now'' = GENERATE_BLUEPRINT
   \<and> routeIdea NaN ''build-now'' = ARCHIVE_WITH_LEARNING
   \<and> routeIdea Infinity ''partner'' = DEFER_WITH_BLUEPRINT"
  using routeIdea_cascade [of "Num 79.5" "''build-now''"]
    routeIdea_cascade [of "Num 59" "''build-now''"]
    routeIdea_cascade [of "Num 39" "''build-later''"]
    routeIdea_cascade [of "Num 100" "''build-now''"]
    routeIdea_cascade [of NaN "''build-now''"]
    routeIdea_cascade [of Infinity "''partner''"]
  by simp

text \<open>
  C2. After a successful evaluation stage, the status written to the idea is the image of
  the computed route under a total mapping: GENERATE_BLUEPRINT gives evaluated-ready,
  DEFER_WITH_BLUEPRINT gives deferred, NEEDS_VALIDATION gives research and
  ARCHIVE_WITH_LEARNING gives archived. This holds for the task of the evaluate handler
  and for the task of the analyze handler, for every idea present in the table.
\<close>

theorem status_after_evaluation:
  "newStatus GENERATE_BLUEPRINT = ''evaluated-ready''
   \<and> newStatus DEFER_WITH_BLUEPRINT = ''deferred''
   \<and> newStatus NEEDS_VALIDATION = ''research''
   \<and> newStatus ARCHIVE_WITH_LEARNING = ''archived''
   \<and> (select_idea d i \<noteq> None \<and> evaluateIdea env (raw_text idea) en = Inr ev \<longrightarrow>
        map_option status (select_idea (fst (evaluate_task env i idea en d)) i)
          = Some (newStatus (routeIdea (evaluationScore ev) (recommendation ev))))
   \<and> (select_idea d i \<noteq> None \<and> enrichIdea env (raw_text idea) (idea_context idea) = Inr en
        \<and> evaluateIdea env (raw_text idea) en = Inr ev \<longrightarrow>
        map_option status (select_idea (fst (analyze_task env i idea d)) i)
          = Some (newStatus (routeIdea (evaluationScore ev) (recommendation ev))))"
proof (intro conjI impI)
  show "newStatus GENERATE_BLUEPRINT = ''evaluated-ready''"
    "newStatus DEFER_WITH_BLUEPRINT = ''deferred''"
    "newStatus NEEDS_VALIDATION = ''research''"
    "newStatus ARCHIVE_WITH_LEARNING = ''archived''"
    by (simp_all add: newStatus_def)
next
  assume a: "select_idea d i \<noteq> None \<and> evaluateIdea env (raw_text idea) en = Inr ev"
  then obtain r where r: "select_idea d i = Some r" by auto
  then obtain d1 where d1: "saveEvaluation d i ev (clock env 0) = Inr d1"
    using saveEvaluation_Inr by blast
  then have "select_idea d1 i = Some r"
    using r saveEvaluation_frame select_idea_cong by metis
  then have "map_option status (select_idea (update_idea d1
      (newStatus (routeIdea (evaluationScore ev) (recommendation ev))) (clock env 1) i) i)
      = Some (newStatus (routeIdea (evaluationScore ev) (recommendation ev)))"
    by (rule status_after_update)
  with a d1 show "map_option status (select_idea (fst (evaluate_task env i idea en d)) i)
      = Some (newStatus (routeIdea (evaluationScore ev) (recommendation ev)))"
    by (simp add: evaluate_task_def Let_def)
next
  assume a: "select_idea d i \<noteq> None \<and> enrichIdea env (raw_text idea) (idea_context idea) = Inr en
      \<and> evaluateIdea env (raw_text idea) en = Inr ev"
  then obtain r where r: "select_idea d i = Some r" by auto
  then obtain d1 where d1: "saveEnrichment d i en (clock env 0) = Inr d1"
    using saveEnrichment_Inr by blast
  then have r1: "select_idea d1 i = Some r"
    using r saveEnrichment_frame select_idea_cong by metis
  then obtain d2 where d2: "saveEvaluation d1 i ev (clock env 1) = Inr d2"
    using saveEvaluation_Inr by blast
  then have "select_idea d2 i = Some r"
    using r1 saveEvaluation_frame select_idea_cong by metis
  then have "map_option status (select_idea (update_idea d2
      (newStatus (routeIdea (evaluationScore ev) (recommendation ev))) (clock env 2) i) i)
      = Some (newStatus (routeIdea (evaluationScore ev) (recommendation ev)))"
    by (rule status_after_update)
  with a d1 d2 show "map_option status (select_idea (fst (analyze_task env i idea d)) i)
      = Some (newStatus (routeIdea (evaluationScore ev) (recommendation ev)))"
    by (simp add: analyze_task_def Let_def)
qed

theorem status_after_evaluation_witness:
  "handle ''id1'' ''2025-01-01 00:00:00'' (POST_ideas input1) server0 =
     (\<lparr>code = 201,
       body = [(''id'', ''id1''), (''status'', ''pending''),
               (''message'', ''Idea created. Run enrichment to analyze.'')]\<rparr>, server1)
   \<and> snd (handle ''u'' ''t'' (POST_analyze ''id1'') server1) =
       \<lparr>store = db1, inflight = [AnalyzeTask ''id1'' idea1]\<rparr>
   \<and> map_option status (select_idea (store (fst (complete (env_ok (Num 90) ''build-now'') 0
         \<lparr>store = db1, inflight = [AnalyzeTask ''id1'' idea1]\<rparr>))) ''id1'')
       = Some ''evaluated-ready''
   \<and> map_option status (select_idea (store (fst (complete (env_ok (Num 30) ''build-now'') 0
         \<lparr>store = db1, inflight = [AnalyzeTask ''id1'' idea1]\<rparr>))) ''id1'')
       = Some ''archived''
   \<and> map_option status (select_idea
         (fst (evaluate_task (env_ok (Num 85) ''skip'') ''id1'' idea1 enrichment1 db1)) ''id1'')
       = Some ''deferred''
   \<and> map_option status (select_idea
         (fst (evaluate_task (env_ok (Num 45) ''partner'') ''id1'' idea1 enrichment1 db1)) ''id1'')
       = Some ''research''"
proof -
  have r: "routeIdea (Num 90) ''build-now'' = GENERATE_BLUEPRINT"
    "routeIdea (Num 30) ''build-now'' = ARCHIVE_WITH_LEARNING"
    "routeIdea (Num 85) ''skip'' = DEFER_WITH_BLUEPRINT"
    "routeIdea (Num 45) ''partner'' = NEEDS_VALIDATION"
    by (simp_all add: routeIdea_def ROUTING_THRESHOLDS_def)
  have i: "select_idea db1 ''id1'' \<noteq> None"
    by (simp add: select_idea_db1)
  note t = status_after_evaluation [of db1 "''id1''" _ idea1 enrichment1]
  have "map_option status (select_idea
        (fst (analyze_task (env_ok (Num 90) ''build-now'') ''id1'' idea1 db1)) ''id1'')
      = Some ''evaluated-ready''
    \<and> map_option status (select_idea
        (fst (analyze_task (env_ok (Num 30) ''build-now'') ''id1'' idea1 db1)) ''id1'')
      = Some ''archived''
    \<and> map_option status (select_idea
        (fst (evaluate_task (env_ok (Num 85) ''skip'') ''id1'' idea1 enrichment1 db1)) ''id1'')
      = Some ''deferred''
    \<and> map_option status (select_idea
        (fst (evaluate_task (env_ok (Num 45) ''partner'') ''id1'' idea1 enrichment1 db1)) ''id1'')
      = Some ''research''"
    using i t [of "env_ok (Num 90) ''build-now''" "evaluation1 (Num 90) ''build-now''"]
      t [of "env_ok (Num 30) ''build-now''" "evaluation1 (Num 30) ''build-now''"]
      t [of "env_ok (Num 85) ''skip''" "evaluation1 (Num 85) ''skip''"]
      t [of "env_ok (Num 45) ''partner''" "evaluation1 (Num 45) ''partner''"]
    by (simp only: env_ok_simps r simp_thms)
  then show ?thesis
    by (simp only: create_example analyze_example complete_example fst_conv snd_conv
        server.simps simp_thms)
qed

text \<open>
  C3. For every idea without an EnrichmentRecord, the evaluate handler fails at once: with
  status 400 and the message that the idea must be enriched first (PreconditionError) when
  the idea exists, with status 404 (NotFoundError) when it does not. That response is the
  only one sent, no task is started, and the database is as it was.
\<close>

theorem evaluate_requires_enrichment:
  "getEnrichment (store s) i = None \<longrightarrow>
     handle u t (POST_evaluate i) s =
       (if select_idea (store s) i = None
        then \<lparr>code = 404, body = [(''error'', ''Idea not found'')]\<rparr>
        else \<lparr>code = 400,
              body = [(''error'', ''Idea must be enriched before evaluation. Run /enrich first.'')]\<rparr>,
        s)"
  by (simp add: post_evaluate_def not_found_def start_def split: option.splits)

theorem evaluate_requires_enrichment_witness:
  "getEnrichment (store server1) ''id1'' = None
   \<and> getEnrichment (store server1) ''id2'' = None
   \<and> handle ''u'' ''t'' (POST_evaluate ''id1'') server1 =
       (\<lparr>code = 400,
         body = [(''error'', ''Idea must be enriched before evaluation. Run /enrich first.'')]\<rparr>,
        server1)
   \<and> handle ''u'' ''t'' (POST_evaluate ''id2'') server1 =
       (\<lparr>code = 404, body = [(''error'', ''Idea not found'')]\<rparr>, server1)"
proof -
  have e: "getEnrichment (store server1) ''id1'' = None" "getEnrichment (store server1) ''id2'' = None"
    by (simp_all add: getEnrichment_def server1_def db1_def)
  have i: "select_idea (store server1) ''id1'' \<noteq> None" "select_idea (store server1) ''id2'' = None"
    by (simp_all add: select_idea_def server1_def db1_def idea1_def)
  show ?thesis
    using e i evaluate_requires_enrichment [of server1 "''id1''" "''u''" "''t''"]
      evaluate_requires_enrichment [of server1 "''id2''" "''u''" "''t''"]
    by simp
qed

text \<open>
  C4. When the stage executor fails in the detached task of the enrich handler or of the
  evaluate handler, the task leaves the database exactly as it was: the idea's status and
  updated_at are unchanged and no stage record of that run is stored. The only effect
  after the call of the executor is one line on the error console. The response of the
  handler was sent before the task ran and is computed without the executor, so an idea
  still pending once the enrich task has ended is what a caller can see of the failure.
\<close>

theorem executor_failure_effects:
  "(enrichIdea env (raw_text idea) (idea_context idea) = Inl e \<longrightarrow>
      enrich_task env i idea d =
        (d, [Call_enrichIdea (raw_text idea) (idea_context idea),
             ConsoleError (mark_failed @ ''Enrichment failed for idea '' @ i @ '':'') e]))
   \<and> (evaluateIdea env (raw_text idea) en = Inl e \<longrightarrow>
        evaluate_task env i idea en d =
          (d, [Call_evaluateIdea (raw_text idea) en,
               ConsoleError (mark_failed @ ''Evaluation failed for idea '' @ i @ '':'') e]))"
proof (rule conjI; rule impI)
  assume "enrichIdea env (raw_text idea) (idea_context idea) = Inl e"
  then show "enrich_task env i idea d =
        (d, [Call_enrichIdea (raw_text idea) (idea_context idea),
             ConsoleError (mark_failed @ ''Enrichment failed for idea '' @ i @ '':'') e])"
    by (simp add: enrich_task_def)
next
  assume "evaluateIdea env (raw_text idea) en = Inl e"
  then show "evaluate_task env i idea en d =
          (d, [Call_evaluateIdea (raw_text idea) en,
               ConsoleError (mark_failed @ ''Evaluation failed for idea '' @ i @ '':'') e])"
    by (simp add: evaluate_task_def)
qed

theorem executor_failure_effects_witness:
  "enrichIdea env_enrich_fails (raw_text idea1) (idea_context idea1)
     = Inl (Error ''Failed to enrich idea: fetch failed'')
   \<and> handle ''u'' ''t'' (POST_enrich ''id1'') server1 =
       (\<lparr>code = 200,
         body = [(''status'', ''enriching''), (''message'', ''Processing enrichment...'')]\<rparr>,
        \<lparr>store = db1, inflight = [EnrichTask ''id1'' idea1]\<rparr>)
   \<and> complete env_enrich_fails 0 \<lparr>store = db1, inflight = [EnrichTask ''id1'' idea1]\<rparr> =
       (server1,
        [Call_enrichIdea ''Build a tool'' None,
         ConsoleError (mark_failed @ ''Enrichment failed for idea id1:'')
           (Error ''Failed to enrich idea: fetch failed'')])
   \<and> map_option status (select_idea (store server1) ''id1'') = Some ''pending''
   \<and> evaluateIdea env_evaluate_fails (raw_text idea1) enrichment1
       = Inl (Error ''Failed to evaluate idea: fetch failed'')
   \<and> evaluate_task env_evaluate_fails ''id1'' idea1 enrichment1 db3 =
       (db3,
        [Call_evaluateIdea ''Build a tool'' enrichment1,
         ConsoleError (mark_failed @ ''Evaluation failed for idea id1:'')
           (Error ''Failed to evaluate idea: fetch failed'')])"
proof -
  have h: "enrichIdea env_enrich_fails (raw_text idea1) (idea_context idea1)
      = Inl (Error ''Failed to enrich idea: fetch failed'')"
    "evaluateIdea env_evaluate_fails (raw_text idea1) enrichment1
      = Inl (Error ''Failed to evaluate idea: fetch failed'')"
    by (simp_all add: env_fails_simps)
  have q: "handle ''u'' ''t'' (POST_enrich ''id1'') server1 =
       (\<lparr>code = 200,
         body = [(''status'', ''enriching''), (''message'', ''Processing enrichment...'')]\<rparr>,
        \<lparr>store = db1, inflight = [EnrichTask ''id1'' idea1]\<rparr>)"
    by (simp add: post_enrich_def start_def server1_def select_idea_db1)
  have c: "complete env 0 \<lparr>store = db1, inflight = [EnrichTask ''id1'' idea1]\<rparr> =
       (\<lparr>store = fst (enrich_task env ''id1'' idea1 db1), inflight = []\<rparr>,
        snd (enrich_task env ''id1'' idea1 db1))" for env
    by (simp add: complete_def split_beta)
  have p: "map_option status (select_idea (store server1) ''id1'') = Some ''pending''"
    by (simp add: server1_def select_idea_db1 idea1_simps)
  show ?thesis
    using h q p
      executor_failure_effects [where env = env_enrich_fails and idea = idea1 and i = "''id1''"
        and d = db1 and e = "Error ''Failed to enrich idea: fetch failed''"
        and en = enrichment1]
      executor_failure_effects [where env = env_evaluate_fails and idea = idea1 and i = "''id1''"
        and d = db3 and e = "Error ''Failed to evaluate idea: fetch failed''"
        and en = enrichment1]
    by (simp add: c idea1_simps server1_def)
qed



text \<open>
  C6. The create handler answers 400 (ValidationError) when rawText is absent or empty and
  leaves the database as it was. Otherwise, given the fresh id that \<^verbatim>\<open>uuidv4\<close>
  produced, it appends one row with that id, the given text and status pending, before it
  answers 201 with the id. An id already in the table is refused by the primary key (500,
  nothing written): an idea is created only under an id that was not in the table, and
  the ids of the table stay distinct.
\<close>

theorem post_ideas_creates:
  "(rawText input = None \<or> rawText input = Some [] \<longrightarrow>
      post_ideas u t input d = (\<lparr>code = 400, body = [(''error'', ''rawText is required'')]\<rparr>, d))
   \<and> (rawText input = Some text \<and> text \<noteq> [] \<and> select_idea d u = None \<longrightarrow>
        (\<exists>row d'.
           post_ideas u t input d =
             (\<lparr>code = 201,
               body = [(''id'', u), (''status'', ''pending''),
                       (''message'', ''Idea created. Run enrichment to analyze.'')]\<rparr>, d')
           \<and> ideas d' = ideas d @ [row]
           \<and> idea_enrichment d' = idea_enrichment d \<and> idea_evaluation d' = idea_evaluation d
           \<and> select_idea d' u = Some row
           \<and> ideas_id row = u \<and> raw_text row = text \<and> status row = ''pending''))
   \<and> (rawText input = Some text \<and> text \<noteq> [] \<and> select_idea d u \<noteq> None \<longrightarrow>
        code (fst (post_ideas u t input d)) = 500 \<and> snd (post_ideas u t input d) = d)
   \<and> (code (fst (post_ideas u t input d)) = 201 \<longrightarrow> select_idea d u = None)
   \<and> (distinct (map ideas_id (ideas d)) \<longrightarrow>
        distinct (map ideas_id (ideas (snd (post_ideas u t input d)))))"
proof (intro conjI impI)
  assume "rawText input = None \<or> rawText input = Some []"
  then show "post_ideas u t input d
      = (\<lparr>code = 400, body = [(''error'', ''rawText is required'')]\<rparr>, d)"
    by (auto simp: post_ideas_def)
next
  assume a: "rawText input = Some text \<and> text \<noteq> [] \<and> select_idea d u = None"
  let ?row = "\<lparr>ideas_id = u, source = ''manual'', raw_text = text, created_at = t,
      idea_context = or_null (ideaContext input), project_hint = or_null (projectHint input),
      status = ''pending'', updated_at = t\<rparr>"
  let ?d = "d\<lparr>ideas := ideas d @ [?row]\<rparr>"
  have "post_ideas u t input d =
      (\<lparr>code = 201,
        body = [(''id'', u), (''status'', ''pending''),
                (''message'', ''Idea created. Run enrichment to analyze.'')]\<rparr>, ?d)"
    using a by (simp add: post_ideas_def insert_idea_def)
  moreover have "select_idea ?d u = Some ?row"
    using a by (simp add: select_idea_def find_append_new)
  ultimately show "\<exists>row d'.
      post_ideas u t input d =
        (\<lparr>code = 201,
          body = [(''id'', u), (''status'', ''pending''),
                  (''message'', ''Idea created. Run enrichment to analyze.'')]\<rparr>, d')
      \<and> ideas d' = ideas d @ [row]
      \<and> idea_enrichment d' = idea_enrichment d \<and> idea_evaluation d' = idea_evaluation d
      \<and> select_idea d' u = Some row
      \<and> ideas_id row = u \<and> raw_text row = text \<and> status row = ''pending''"
    by (intro exI [of _ ?row] exI [of _ ?d]) simp
next
  assume a: "rawText input = Some text \<and> text \<noteq> [] \<and> select_idea d u \<noteq> None"
  then show "code (fst (post_ideas u t input d)) = 500" "snd (post_ideas u t input d) = d"
    by (auto simp: post_ideas_def insert_idea_def)
next
  assume "code (fst (post_ideas u t input d)) = 201"
  then show "select_idea d u = None"
    by (auto simp: post_ideas_def insert_idea_def split: option.splits if_splits)
next
  assume dist: "distinct (map ideas_id (ideas d))"
  show "distinct (map ideas_id (ideas (snd (post_ideas u t input d))))"
  proof (cases "select_idea d u")
    case None
    then have "u \<notin> ideas_id ` set (ideas d)"
      by (simp add: select_idea_None_iff)
    with dist None show ?thesis
      by (auto simp: post_ideas_def insert_idea_def split: option.splits)
  next
    case (Some r)
    with dist show ?thesis
      by (auto simp: post_ideas_def insert_idea_def split: option.splits)
  qed
qed

theorem post_ideas_creates_witness:
  "post_ideas ''id1'' ''2025-01-01 00:00:00'' input1 db0 =
     (\<lparr>code = 201,
       body = [(''id'', ''id1''), (''status'', ''pending''),
               (''message'', ''Idea created. Run enrichment to analyze.'')]\<rparr>, db1)
   \<and> post_ideas ''id1'' ''2025-01-01 00:00:00'' (input1\<lparr>rawText := Some []\<rparr>) db0 =
     (\<lparr>code = 400, body = [(''error'', ''rawText is required'')]\<rparr>, db0)
   \<and> code (fst (post_ideas ''id1'' ''2025-01-02 00:00:00'' input1 db1)) = 500
   \<and> snd (post_ideas ''id1'' ''2025-01-02 00:00:00'' input1 db1) = db1
   \<and> distinct (map ideas_id (ideas (snd (post_ideas ''id2'' ''2025-01-02 00:00:00'' input1 db1))))"
proof -
  have h: "rawText input1 = Some ''Build a tool''" "''Build a tool'' \<noteq> []"
    "select_idea db0 ''id1'' = None" "select_idea db1 ''id1'' \<noteq> None"
    "rawText (input1\<lparr>rawText := Some []\<rparr>) = Some []"
    "distinct (map ideas_id (ideas db1))"
    by (simp_all add: input1_def select_idea_def db0_def db1_def idea1_def)
  have c: "post_ideas ''id1'' ''2025-01-01 00:00:00'' input1 db0 =
     (\<lparr>code = 201,
       body = [(''id'', ''id1''), (''status'', ''pending''),
               (''message'', ''Idea created. Run enrichment to analyze.'')]\<rparr>, db1)"
    by (simp add: post_ideas_def insert_idea_def select_idea_def input1_def db0_def db1_def
        idea1_def or_null_def)
  show ?thesis
    using h c post_ideas_creates [of input1 "''id1''" "''2025-01-01 00:00:00''" db0 "''Build a tool''"]
      post_ideas_creates [of "input1\<lparr>rawText := Some []\<rparr>" "''id1''" "''2025-01-01 00:00:00''" db0 "''x''"]
      post_ideas_creates [of input1 "''id1''" "''2025-01-02 00:00:00''" db1 "''Build a tool''"]
      post_ideas_creates [of input1 "''id2''" "''2025-01-02 00:00:00''" db1 "''Build a tool''"]
    by simp
qed

text \<open>
  C7. Saving the enrichment of an idea is an upsert that replaces: saving the same output
  twice leaves exactly one row for the idea, the database is the one a single save at the
  second time leaves, and \<^verbatim>\<open>getEnrichment\<close> returns a record after one save and the
  same record after two. The rows of other ideas and the other tables are untouched, and
  whatever a second save writes replaces the first row whole.
\<close>

theorem saveEnrichment_upsert:
  "select_idea d i \<noteq> None \<longrightarrow>
     (\<exists>d1 d2. saveEnrichment d i e t1 = Inr d1 \<and> saveEnrichment d1 i e t2 = Inr d2
        \<and> length (enrichment_records d1 i) = 1 \<and> length (enrichment_records d2 i) = 1
        \<and> getEnrichment d1 i \<noteq> None \<and> getEnrichment d2 i = getEnrichment d1 i
        \<and> saveEnrichment d i e t2 = Inr d2
        \<and> other_enrichment_records d2 i = other_enrichment_records d i
        \<and> ideas d2 = ideas d \<and> idea_evaluation d2 = idea_evaluation d
        \<and> saveEnrichment d1 i e' t2 = saveEnrichment d i e' t2)"
proof
  assume "select_idea d i \<noteq> None"
  then obtain r where r: "select_idea d i = Some r" by auto
  then obtain d1 where d1: "saveEnrichment d i e t1 = Inr d1"
    by (simp add: saveEnrichment_Inr)
  from r obtain d2 where d2: "saveEnrichment d i e t2 = Inr d2"
    by (simp add: saveEnrichment_Inr)
  have again: "saveEnrichment d1 i e t2 = Inr d2"
    using saveEnrichment_overwrites [OF d1] d2 by simp
  show "\<exists>d1 d2. saveEnrichment d i e t1 = Inr d1 \<and> saveEnrichment d1 i e t2 = Inr d2
        \<and> length (enrichment_records d1 i) = 1 \<and> length (enrichment_records d2 i) = 1
        \<and> getEnrichment d1 i \<noteq> None \<and> getEnrichment d2 i = getEnrichment d1 i
        \<and> saveEnrichment d i e t2 = Inr d2
        \<and> other_enrichment_records d2 i = other_enrichment_records d i
        \<and> ideas d2 = ideas d \<and> idea_evaluation d2 = idea_evaluation d
        \<and> saveEnrichment d1 i e' t2 = saveEnrichment d i e' t2"
    using d1 d2 again enrichment_records_saveEnrichment [OF d1]
      enrichment_records_saveEnrichment [OF d2]
      getEnrichment_saveEnrichment_twice [OF d1 d2]
      saveEnrichment_frame [OF d2] saveEnrichment_overwrites [OF d1]
    by (intro exI [of _ d1] exI [of _ d2]) simp
qed

theorem saveEnrichment_upsert_witness:
  "select_idea db1 ''id1'' \<noteq> None
   \<and> (\<exists>d1 d2. saveEnrichment db1 ''id1'' enrichment1 ''2025-01-01T00:00:01.000Z'' = Inr d1
        \<and> saveEnrichment d1 ''id1'' enrichment1 ''2025-01-01T00:00:02.000Z'' = Inr d2
        \<and> length (enrichment_records d2 ''id1'') = 1
        \<and> getEnrichment d1 ''id1'' \<noteq> None
        \<and> getEnrichment d2 ''id1'' = getEnrichment d1 ''id1'')"
  using saveEnrichment_upsert [of db1 "''id1''" enrichment1 "''2025-01-01T00:00:01.000Z''"
      "''2025-01-01T00:00:02.000Z''" enrichment1]
  by (simp add: select_idea_db1) blast

text \<open>
  C8 as stated fails. Two enrich requests on the same idea, the second before the task of
  the first has run, are both accepted and leave two tasks in flight on that idea.
\<close>

theorem overlapping_runs_counterexample:
  "inflight_on ''id1'' server1 = 0
   \<and> handle ''u'' ''t'' (POST_enrich ''id1'') server1 =
       (\<lparr>code = 200,
         body = [(''status'', ''enriching''), (''message'', ''Processing enrichment...'')]\<rparr>,
        \<lparr>store = db1, inflight = [EnrichTask ''id1'' idea1]\<rparr>)
   \<and> handle ''u'' ''t'' (POST_enrich ''id1'') \<lparr>store = db1, inflight = [EnrichTask ''id1'' idea1]\<rparr> =
       (\<lparr>code = 200,
         body = [(''status'', ''enriching''), (''message'', ''Processing enrichment...'')]\<rparr>,
        \<lparr>store = db1, inflight = [EnrichTask ''id1'' idea1, EnrichTask ''id1'' idea1]\<rparr>)
   \<and> inflight_on ''id1'' \<lparr>store = db1, inflight = [EnrichTask ''id1'' idea1, EnrichTask ''id1'' idea1]\<rparr>
       = 2"
  by (simp add: inflight_on_def post_enrich_def start_def server1_def select_idea_db1)

text \<open>
  C8, amended. The handlers do not bound the tasks in flight on an idea: every accepted
  run request (enrich, evaluate or analyze) starts one more task on its idea and writes
  nothing, and its response is the same whatever is in flight.
\<close>

theorem accepted_run_starts_task:
  "req \<in> {POST_enrich i, POST_evaluate i, POST_analyze i} \<and> code (fst (handle u t req s)) = 200 \<longrightarrow>
     inflight_on i (snd (handle u t req s)) = Suc (inflight_on i s)
     \<and> store (snd (handle u t req s)) = store s
     \<and> fst (handle u t req s) = fst (handle u t req (s\<lparr>inflight := ts\<rparr>))"
proof
  assume a: "req \<in> {POST_enrich i, POST_evaluate i, POST_analyze i} \<and> code (fst (handle u t req s)) = 200"
  then consider "req = POST_enrich i" | "req = POST_evaluate i" | "req = POST_analyze i"
    by auto
  then show "inflight_on i (snd (handle u t req s)) = Suc (inflight_on i s)
     \<and> store (snd (handle u t req s)) = store s
     \<and> fst (handle u t req s) = fst (handle u t req (s\<lparr>inflight := ts\<rparr>))"
  proof cases
    case 1
    with a show ?thesis
      by (auto simp: post_enrich_def not_found_def inflight_on_def start_def split: option.splits)
  next
    case 2
    with a show ?thesis
      by (auto simp: post_evaluate_def not_found_def inflight_on_def start_def split: option.splits)
  next
    case 3
    with a show ?thesis
      by (auto simp: post_analyze_def not_found_def inflight_on_def start_def split: option.splits)
  qed
qed

theorem accepted_run_starts_task_witness:
  "code (fst (handle ''u'' ''t'' (POST_analyze ''id1'')
           \<lparr>store = db1, inflight = [EnrichTask ''id1'' idea1]\<rparr>)) = 200
   \<and> inflight_on ''id1'' (snd (handle ''u'' ''t'' (POST_analyze ''id1'')
           \<lparr>store = db1, inflight = [EnrichTask ''id1'' idea1]\<rparr>)) = 2"
proof -
  have c: "code (fst (handle ''u'' ''t'' (POST_analyze ''id1'')
           \<lparr>store = db1, inflight = [EnrichTask ''id1'' idea1]\<rparr>)) = 200"
    by (simp add: post_analyze_def select_idea_db1)
  have n: "inflight_on ''id1'' \<lparr>store = db1, inflight = [EnrichTask ''id1'' idea1]\<rparr> = 1"
    by (simp add: inflight_on_def)
  show ?thesis
    using c n accepted_run_starts_task [where req = "POST_analyze ''id1''" and i = "''id1''"
        and u = "''u''" and t = "''t''"
        and s = "\<lparr>store = db1, inflight = [EnrichTask ''id1'' idea1]\<rparr>" and ts = "[]"]
    by simp
qed

text \<open>
  C9. routeIdea is total, and the recommendation is dead below the top threshold: for
  every score strictly below 80, negative and fractional scores included, any two
  recommendations give the same route; every score below 40 is routed to
  ARCHIVE_WITH_LEARNING whatever the recommendation.
\<close>

theorem routeIdea_recommendation_dead:
  "(js_lt s (Num 80) \<longrightarrow> routeIdea s r1 = routeIdea s r2)
   \<and> (js_lt s (Num 40) \<longrightarrow> routeIdea s r = ARCHIVE_WITH_LEARNING)
   \<and> routeIdea s r \<in>
        {GENERATE_BLUEPRINT, DEFER_WITH_BLUEPRINT, NEEDS_VALIDATION, ARCHIVE_WITH_LEARNING}"
proof (intro conjI impI)
  assume "js_lt s (Num 80)"
  then have "\<not> js_ge s (Num 80)"
    by (rule js_lt_not_ge)
  then show "routeIdea s r1 = routeIdea s r2"
    by (simp add: routeIdea_def ROUTING_THRESHOLDS_def)
next
  assume "js_lt s (Num 40)"
  then have low: "\<not> js_ge s (Num 40)"
    by (rule js_lt_not_ge)
  have "\<not> js_ge s (Num 60)" "\<not> js_ge s (Num 80)"
    using low js_ge_Num_trans [of s 60 40] js_ge_Num_trans [of s 80 40] by auto
  with low show "routeIdea s r = ARCHIVE_WITH_LEARNING"
    by (simp add: routeIdea_def ROUTING_THRESHOLDS_def)
next
  show "routeIdea s r \<in>
    {GENERATE_BLUEPRINT, DEFER_WITH_BLUEPRINT, NEEDS_VALIDATION, ARCHIVE_WITH_LEARNING}"
    by (cases "routeIdea s r") simp_all
qed

theorem routeIdea_recommendation_dead_witness:
  "js_lt (Num (-3.5)) (Num 80) \<and> js_lt (Num (-3.5)) (Num 40)
   \<and> routeIdea (Num (-3.5)) ''build-now'' = routeIdea (Num (-3.5)) ''skip''
   \<and> routeIdea (Num (-3.5)) ''build-now'' = ARCHIVE_WITH_LEARNING
   \<and> js_lt (Num 79.9) (Num 80)
   \<and> routeIdea (Num 79.9) ''build-now'' = routeIdea (Num 79.9) ''partner''"
  using routeIdea_recommendation_dead [of "Num (-3.5)" "''build-now''" "''skip''" "''build-now''"]
    routeIdea_recommendation_dead [of "Num 79.9" "''build-now''" "''partner''" "''skip''"]
  by auto

text \<open>
  C10. The rationale of an EvaluationOutput is never stored: the row written does not
  depend on it, and reading the evaluation back after saving it gives the rationale as the
  saved jtbdAnalysis. Every other field is read back as it was saved, when neither score
  is NaN; SQLite keeps NaN as NULL, so a NaN score is read back as null. The executor
  parses its reply as JSON, which has no NaN.
\<close>

theorem rationale_not_persisted:
  "saveEvaluation d i (e\<lparr>rationale := x\<rparr>) t = saveEvaluation d i e t
   \<and> (select_idea d i \<noteq> None \<and> disruptionScore e \<noteq> NaN \<and> evaluationScore e \<noteq> NaN \<longrightarrow>
        (\<exists>d'. saveEvaluation d i e t = Inr d'
           \<and> getEvaluation d' i =
               Inr (Some \<lparr>jtbdAnalysis = jtbdAnalysis e,
                          disruptionScore = Some (disruptionScore e),
                          capabilitiesFit = capabilitiesFit e,
                          recommendation = recommendation e,
                          caseStudyMatches = caseStudyMatches e,
                          evaluationScore = Some (evaluationScore e),
                          rationale = jtbdAnalysis e\<rparr>)))
   \<and> (select_idea d i \<noteq> None \<longrightarrow>
        (\<exists>d'. saveEvaluation d i e t = Inr d'
           \<and> getEvaluation d' i =
               Inr (Some \<lparr>jtbdAnalysis = jtbdAnalysis e,
                          disruptionScore = sql_real (Some (disruptionScore e)),
                          capabilitiesFit = capabilitiesFit e,
                          recommendation = recommendation e,
                          caseStudyMatches = caseStudyMatches e,
                          evaluationScore = sql_real (Some (evaluationScore e)),
                          rationale = jtbdAnalysis e\<rparr>)))"
proof (intro conjI impI)
  show "saveEvaluation d i (e\<lparr>rationale := x\<rparr>) t = saveEvaluation d i e t"
    by (simp add: saveEvaluation_def)
next
  assume a: "select_idea d i \<noteq> None \<and> disruptionScore e \<noteq> NaN \<and> evaluationScore e \<noteq> NaN"
  then obtain d' where d': "saveEvaluation d i e t = Inr d'"
    using saveEvaluation_Inr by fastforce
  have "sql_real (Some (disruptionScore e)) = Some (disruptionScore e)"
    "sql_real (Some (evaluationScore e)) = Some (evaluationScore e)"
    using a by (simp_all add: sql_real_def)
  with d' show "\<exists>d'. saveEvaluation d i e t = Inr d'
      \<and> getEvaluation d' i =
          Inr (Some \<lparr>jtbdAnalysis = jtbdAnalysis e,
                     disruptionScore = Some (disruptionScore e),
                     capabilitiesFit = capabilitiesFit e,
                     recommendation = recommendation e,
                     caseStudyMatches = caseStudyMatches e,
                     evaluationScore = Some (evaluationScore e),
                     rationale = jtbdAnalysis e\<rparr>)"
    using getEvaluation_saveEvaluation [OF d'] by simp
next
  assume "select_idea d i \<noteq> None"
  then obtain d' where d': "saveEvaluation d i e t = Inr d'"
    using saveEvaluation_Inr by fastforce
  then show "\<exists>d'. saveEvaluation d i e t = Inr d'
      \<and> getEvaluation d' i =
          Inr (Some \<lparr>jtbdAnalysis = jtbdAnalysis e,
                     disruptionScore = sql_real (Some (disruptionScore e)),
                     capabilitiesFit = capabilitiesFit e,
                     recommendation = recommendation e,
                     caseStudyMatches = caseStudyMatches e,
                     evaluationScore = sql_real (Some (evaluationScore e)),
                     rationale = jtbdAnalysis e\<rparr>)"
    using getEvaluation_saveEvaluation [OF d'] by simp
qed

theorem rationale_not_persisted_witness:
  "select_idea db1 ''id1'' \<noteq> None
   \<and> disruptionScore (evaluation1 (Num 90) ''build-now'') \<noteq> NaN
   \<and> evaluationScore (evaluation1 (Num 90) ''build-now'') \<noteq> NaN
   \<and> saveEvaluation db1 ''id1'' (evaluation1 (Num 90) ''build-now'') ''2025-01-01T00:00:01.000Z''
       = Inr db2
   \<and> getEvaluation db2 ''id1''
       = Inr (Some \<lparr>jtbdAnalysis = ''Teams need a tool'', disruptionScore = Some (Num 0.5),
                    capabilitiesFit = ''strong'', recommendation = ''build-now'',
                    caseStudyMatches = [''Disk drives'', ''Steel \"mini\" mills''],
                    evaluationScore = Some (Num 90), rationale = ''Teams need a tool''\<rparr>)
   \<and> rationale (evaluation1 (Num 90) ''build-now'') = ''High fit''"
proof -
  have i: "select_idea db1 ''id1'' \<noteq> None"
    by (simp add: select_idea_db1)
  have "db1\<lparr>idea_evaluation :=
          filter (\<lambda>x. evaluation_idea_id x \<noteq> ''id1'') (idea_evaluation db1) @
          [\<lparr>evaluation_idea_id = ''id1'', jtbd_analysis = ''Teams need a tool'',
            disruption_score = Some (Num 0.5), capabilities_fit = ''strong'',
            strategic_recommendation = ''build-now'',
            case_study_matches = Some matches_text,
            evaluation_score = Some (Num 90),
            evaluated_at = ''2025-01-01T00:00:01.000Z''\<rparr>]\<rparr> = db2"
    by (simp add: db1_def db2_def)
  then have s: "saveEvaluation db1 ''id1'' (evaluation1 (Num 90) ''build-now'')
      ''2025-01-01T00:00:01.000Z'' = Inr db2"
    by (simp add: saveEvaluation_def replace_evaluation_def select_idea_db1 evaluation1_def
        stringify_example sql_real_def)
  have j: "jtbdAnalysis (evaluation1 (Num 90) ''build-now'') = ''Teams need a tool''"
    "rationale (evaluation1 (Num 90) ''build-now'') = ''High fit''"
    "disruptionScore (evaluation1 (Num 90) ''build-now'') = Num 0.5"
    "evaluationScore (evaluation1 (Num 90) ''build-now'') = Num 90"
    "capabilitiesFit (evaluation1 (Num 90) ''build-now'') = ''strong''"
    "recommendation (evaluation1 (Num 90) ''build-now'') = ''build-now''"
    "caseStudyMatches (evaluation1 (Num 90) ''build-now'')
       = [''Disk drives'', ''Steel \"mini\" mills'']"
    by (simp_all add: evaluation1_def)
  show ?thesis
    using i s j rationale_not_persisted [where d = db1 and i = "''id1''"
        and e = "evaluation1 (Num 90) ''build-now''" and x = "''x''"
        and t = "''2025-01-01T00:00:01.000Z''"]
    by simp
qed

end
